theory Spec2Isabelle
  imports Complex_Main
begin

section \<open>The entity pipeline of app.py\<close>

text \<open>
  The three classes of \<^verbatim>\<open>app.py\<close> that carry the processing logic are embedded here:
  \<^verbatim>\<open>WebSearcher.search\<close>, \<^verbatim>\<open>LLMProcessor.extract_information\<close> and
  \<^verbatim>\<open>DataProcessor.process_entities\<close>. Python strings are lists of characters, a
  raised exception is the left summand of a result, and the two external services
  (the search API reached through \<^verbatim>\<open>requests.get\<close> and the completion API reached
  through \<^verbatim>\<open>groq_client.chat.completions.create\<close>) are functions of the environment
  that may answer differently at every call: they read the trace of everything that
  happened before.
\<close>

subsection \<open>Exceptions\<close>

text \<open>
  Instances of Python's \<^verbatim>\<open>Exception\<close>. \<open>RequestException\<close> stands for any instance of
  \<^verbatim>\<open>requests.exceptions.RequestException\<close> other than the \<^verbatim>\<open>HTTPError\<close> that
  \<^verbatim>\<open>raise_for_status\<close> builds (connection errors, timeouts, and the
  \<^verbatim>\<open>requests.exceptions.JSONDecodeError\<close> of requests 2.27 and later);
  \<open>OtherException\<close> stands for every class not listed (the errors of the groq
  client among them). The string is the payload of the exception.
\<close>

datatype exn =
    RequestException string
  | HTTPError int
  | ValueError string
  | KeyError string
  | IndexError string
  | AttributeError string
  | TypeError string
  | OtherException string

text \<open>\<^verbatim>\<open>isinstance(e, requests.exceptions.RequestException)\<close>\<close>

fun is_RequestException :: "exn \<Rightarrow> bool" where
  "is_RequestException (RequestException m) = True"
| "is_RequestException (HTTPError c) = True"
| "is_RequestException e = False"

subsection \<open>Template substitution: \<^verbatim>\<open>prompt.format(entity=entity)\<close>\<close>

text \<open>
  \<^verbatim>\<open>str.format\<close> called with no positional argument and the single keyword
  \<^verbatim>\<open>entity\<close>, a \<^verbatim>\<open>str\<close>. The template is read from left to right as CPython's
  markup iterator does: literal text is copied, \<^verbatim>\<open>{{\<close> and \<^verbatim>\<open>}}\<close> stand for one
  brace, a lone \<^verbatim>\<open>}\<close> is an error, and \<^verbatim>\<open>{\<close> opens a replacement field
  \<^verbatim>\<open>{name!conversion:spec}\<close>.
\<close>

definition PY_SSIZE_T_MAX :: int where
  "PY_SSIZE_T_MAX = 2 ^ 63 - 1"

definition is_decimal :: "char \<Rightarrow> bool" where
  "is_decimal c = (48 \<le> (of_char c :: nat) \<and> (of_char c :: nat) \<le> 57)"

definition digit_val :: "char \<Rightarrow> int" where
  "digit_val c = int (of_char c) - 48"

text \<open>
  The integer a field name denotes: \<open>Inr None\<close> when the name is empty or has a
  character that is not a decimal digit, an error when the number does not fit.
\<close>

fun get_integer_from :: "int \<Rightarrow> string \<Rightarrow> exn + int option" where
  "get_integer_from acc [] = Inr (Some acc)"
| "get_integer_from acc (c # cs) =
     (if \<not> is_decimal c then Inr None
      else if acc > (PY_SSIZE_T_MAX - digit_val c) div 10
      then Inl (ValueError ''Too many decimal digits in format string'')
      else get_integer_from (acc * 10 + digit_val c) cs)"

definition get_integer :: "string \<Rightarrow> exn + int option" where
  "get_integer s = (if s = [] then Inr None else get_integer_from 0 s)"

text \<open>
  What CPython's object protocol makes of a field that asks for more than the plain
  string: an attribute or index after the name, a conversion other than \<^verbatim>\<open>!s\<close>, or a
  non-empty format specification. It is a parameter of the environment, given the
  entity, the accessors, the conversion and the specification.
\<close>

type_synonym field_renderer = "string \<Rightarrow> string \<Rightarrow> char option \<Rightarrow> string \<Rightarrow> exn + string"

text \<open>
  One replacement field. The first part of the name (up to \<^verbatim>\<open>.\<close> or \<^verbatim>\<open>[\<close>) is looked
  up: an empty or numeric name indexes the positional arguments, of which there are
  none; any other name is a keyword, and \<^verbatim>\<open>entity\<close> is the only one.
\<close>

definition output_markup ::
  "field_renderer \<Rightarrow> string \<Rightarrow> string \<Rightarrow> char option \<Rightarrow> string \<Rightarrow> exn + string" where
  "output_markup rf entity field_name conversion format_spec =
     (let first = takeWhile (\<lambda>c. c \<noteq> CHR ''.'' \<and> c \<noteq> CHR ''['') field_name;
          rest = dropWhile (\<lambda>c. c \<noteq> CHR ''.'' \<and> c \<noteq> CHR ''['') field_name
      in case get_integer first of
           Inl e \<Rightarrow> Inl e
         | Inr idx \<Rightarrow>
             if first = [] \<or> idx \<noteq> None
             then Inl (IndexError ''Replacement index out of range for positional args tuple'')
             else if first \<noteq> ''entity'' then Inl (KeyError first)
             else if rest = [] \<and> (conversion = None \<or> conversion = Some CHR ''s'')
                     \<and> format_spec = []
             then Inr entity
             else rf entity rest conversion format_spec)"

datatype fstate =
    Literal
  | FieldName bool string
  | FormatSpec string "char option" nat string

text \<open>
  The scanner. \<open>Literal\<close>: outside a field. \<open>FieldName b n\<close>: in a field name, \<open>n\<close>
  read so far, \<open>b\<close> set between \<^verbatim>\<open>[\<close> and \<^verbatim>\<open>]\<close>, where every character belongs to
  the name. \<open>FormatSpec n c k s\<close>: in the format specification of the field named
  \<open>n\<close> with conversion \<open>c\<close>, \<open>s\<close> read so far, with \<open>k\<close> braces open.
\<close>

fun build_string :: "field_renderer \<Rightarrow> string \<Rightarrow> fstate \<Rightarrow> string \<Rightarrow> string \<Rightarrow> exn + string" where
  "build_string rf entity Literal out [] = Inr out"
| "build_string rf entity Literal out (c # cs) =
     (if c = CHR ''}'' then
        (case cs of
           [] \<Rightarrow> Inl (ValueError ''Single '}' encountered in format string'')
         | d # ds \<Rightarrow>
             if d = CHR ''}'' then build_string rf entity Literal (out @ [c]) ds
             else Inl (ValueError ''Single '}' encountered in format string''))
      else if c = CHR ''{'' then
        (case cs of
           [] \<Rightarrow> Inl (ValueError ''Single '{' encountered in format string'')
         | d # ds \<Rightarrow>
             if d = CHR ''{'' then build_string rf entity Literal (out @ [c]) ds
             else build_string rf entity (FieldName False []) out cs)
      else build_string rf entity Literal (out @ [c]) cs)"
| "build_string rf entity (FieldName b name) out [] =
     Inl (ValueError ''expected '}' before end of string'')"
| "build_string rf entity (FieldName True name) out (c # cs) =
     build_string rf entity (FieldName (c \<noteq> CHR '']'') (name @ [c])) out cs"
| "build_string rf entity (FieldName False name) out (c # cs) =
     (if c = CHR ''{'' then Inl (ValueError ''unexpected '{' in field name'')
      else if c = CHR ''['' then build_string rf entity (FieldName True (name @ [c])) out cs
      else if c = CHR ''}'' then
        (case output_markup rf entity name None [] of
           Inl e \<Rightarrow> Inl e
         | Inr s \<Rightarrow> build_string rf entity Literal (out @ s) cs)
      else if c = CHR '':'' then build_string rf entity (FormatSpec name None 1 []) out cs
      else if c = CHR ''!'' then
        (case cs of
           [] \<Rightarrow> Inl (ValueError ''end of string while looking for conversion specifier'')
         | v # vs \<Rightarrow>
             (case vs of
                [] \<Rightarrow> Inl (ValueError ''unmatched '{' in format spec'')
              | d # ds \<Rightarrow>
                  if d = CHR ''}'' then
                    (case output_markup rf entity name (Some v) [] of
                       Inl e \<Rightarrow> Inl e
                     | Inr s \<Rightarrow> build_string rf entity Literal (out @ s) ds)
                  else if d \<noteq> CHR '':''
                  then Inl (ValueError ''expected ':' after conversion specifier'')
                  else build_string rf entity (FormatSpec name (Some v) 1 []) out ds))
      else build_string rf entity (FieldName False (name @ [c])) out cs)"
| "build_string rf entity (FormatSpec name conv k spec) out [] =
     Inl (ValueError ''unmatched '{' in format spec'')"
| "build_string rf entity (FormatSpec name conv k spec) out (c # cs) =
     (if c = CHR ''{'' then build_string rf entity (FormatSpec name conv (k + 1) (spec @ [c])) out cs
      else if c = CHR ''}'' then
        (if k = 1 then
           (case output_markup rf entity name conv spec of
              Inl e \<Rightarrow> Inl e
            | Inr s \<Rightarrow> build_string rf entity Literal (out @ s) cs)
         else build_string rf entity (FormatSpec name conv (k - 1) (spec @ [c])) out cs)
      else build_string rf entity (FormatSpec name conv k (spec @ [c])) out cs)"

definition py_format :: "field_renderer \<Rightarrow> string \<Rightarrow> string \<Rightarrow> exn + string" where
  "py_format rf prompt entity = build_string rf entity Literal [] prompt"

subsection \<open>Values of the runtime\<close>

text \<open>What \<^verbatim>\<open>response.json()\<close> decodes to; an object is a Python dict, looked up by key.\<close>

datatype jsonval =
    JNull
  | JBool bool
  | JNum rat
  | JStr string
  | JArr "jsonval list"
  | JObj "(string \<times> jsonval) list"

text \<open>The values of the \<^verbatim>\<open>params\<close> dict of the search request.\<close>

datatype pyval = PStr string | PInt int

text \<open>
  The keyword arguments of \<^verbatim>\<open>chat.completions.create\<close>; a message is the dict with
  the keys \<^verbatim>\<open>role\<close> and \<^verbatim>\<open>content\<close>.
\<close>

record chat_request =
  model :: string
  messages :: "(string \<times> string) list list"
  max_tokens :: int
  temperature :: rat

text \<open>
  The HTTP response as far as \<^verbatim>\<open>search\<close> reads it: the status code that
  \<^verbatim>\<open>raise_for_status\<close> tests, and what \<^verbatim>\<open>json()\<close> returns or raises.
\<close>

record response =
  status_code :: int
  json :: "exn + jsonval"

text \<open>
  The completion as far as \<^verbatim>\<open>extract_information\<close> reads it: for each choice its
  \<^verbatim>\<open>message.content\<close>, which may be \<^verbatim>\<open>None\<close>.
\<close>

record completion =
  choices :: "string option list"

text \<open>
  What the outside world sees, in order: the GET requests, the completion requests and
  the errors shown with \<^verbatim>\<open>st.sidebar.error\<close> (the text before the exception, and the
  exception whose \<^verbatim>\<open>str\<close> follows it).
\<close>

datatype event =
    HttpGet string "(string \<times> pyval) list"
  | ChatCreate chat_request
  | SidebarError string exn

text \<open>
  The environment: the answer of \<^verbatim>\<open>requests.get\<close> and of the completion client to a
  request, given the trace before it, and the renderer of replacement fields.
\<close>

record env =
  http_get :: "event list \<Rightarrow> string \<Rightarrow> (string \<times> pyval) list \<Rightarrow> exn + response"
  chat_create :: "event list \<Rightarrow> chat_request \<Rightarrow> exn + completion"
  render_field :: field_renderer

fun is_HttpGet :: "event \<Rightarrow> bool" where
  "is_HttpGet (HttpGet u p) = True"
| "is_HttpGet e = False"

fun is_ChatCreate :: "event \<Rightarrow> bool" where
  "is_ChatCreate (ChatCreate r) = True"
| "is_ChatCreate e = False"

subsection \<open>\<^verbatim>\<open>WebSearcher.search\<close>\<close>

text \<open>\<^verbatim>\<open>response.raise_for_status()\<close>: an \<^verbatim>\<open>HTTPError\<close> for a 4xx or 5xx status.\<close>

definition raise_for_status :: "response \<Rightarrow> exn + unit" where
  "raise_for_status r =
     (if 400 \<le> status_code r \<and> status_code r < 600 then Inl (HTTPError (status_code r))
      else Inr ())"

text \<open>\<^verbatim>\<open>v.get(key, default)\<close>: only a dict has the method.\<close>

fun dict_get :: "jsonval \<Rightarrow> string \<Rightarrow> jsonval \<Rightarrow> exn + jsonval" where
  "dict_get (JObj kvs) k d = Inr (case map_of kvs k of None \<Rightarrow> d | Some v \<Rightarrow> v)"
| "dict_get v k d = Inl (AttributeError ''get'')"

text \<open>
  \<^verbatim>\<open>for result in results\<close>: a list gives its items, a dict its keys, a string its
  characters; nothing else is iterable.
\<close>

fun py_iter :: "jsonval \<Rightarrow> exn + jsonval list" where
  "py_iter (JArr xs) = Inr xs"
| "py_iter (JObj kvs) = Inr (map JStr (remdups (map fst kvs)))"
| "py_iter (JStr s) = Inr (map (\<lambda>c. JStr [c]) s)"
| "py_iter v = Inl (TypeError ''object is not iterable'')"

text \<open>The list comprehension of line 51: the first item that raises ends it.\<close>

fun snippets_of :: "jsonval list \<Rightarrow> exn + jsonval list" where
  "snippets_of [] = Inr []"
| "snippets_of (result # results) =
     (case dict_get result ''snippet'' (JStr []) of
        Inl e \<Rightarrow> Inl e
      | Inr s \<Rightarrow> (case snippets_of results of Inl e \<Rightarrow> Inl e | Inr ss \<Rightarrow> Inr (s # ss)))"

text \<open>\<^verbatim>\<open>sep.join(items)\<close>: every item must be a \<^verbatim>\<open>str\<close>.\<close>

fun py_join :: "string \<Rightarrow> jsonval list \<Rightarrow> exn + string" where
  "py_join sep [] = Inr []"
| "py_join sep [JStr s] = Inr s"
| "py_join sep (JStr s # x # xs) =
     (case py_join sep (x # xs) of Inl e \<Rightarrow> Inl e | Inr t \<Rightarrow> Inr (s @ sep @ t))"
| "py_join sep (v # xs) = Inl (TypeError ''sequence item: expected str instance'')"

text \<open>Lines 49 to 52: from the response that passed the status check to the joined text.\<close>

definition join_snippets :: "response \<Rightarrow> exn + string" where
  "join_snippets r =
     (case json r of
        Inl e \<Rightarrow> Inl e
      | Inr body \<Rightarrow>
          (case dict_get body ''organic_results'' (JArr []) of
             Inl e \<Rightarrow> Inl e
           | Inr results \<Rightarrow>
               (case py_iter results of
                  Inl e \<Rightarrow> Inl e
                | Inr rs \<Rightarrow>
                    (case snippets_of rs of
                       Inl e \<Rightarrow> Inl e
                     | Inr snippets \<Rightarrow> py_join ''\<newline>'' snippets))))"

definition search_url :: string where
  "search_url = ''https://serpapi.com/search''"

definition search_params :: "string \<Rightarrow> string \<Rightarrow> (string \<times> pyval) list" where
  "search_params query serpapi_key =
     [(''q'', PStr query), (''api_key'', PStr serpapi_key), (''num'', PInt 5)]"

text \<open>
  The \<^verbatim>\<open>try\<close> block of \<^verbatim>\<open>search\<close>, lines 41 to 52: the result or the exception raised,
  and the trace, which has the request as soon as \<^verbatim>\<open>requests.get\<close> is called.
\<close>

definition search_try ::
  "env \<Rightarrow> string \<Rightarrow> string \<Rightarrow> string \<Rightarrow> event list \<Rightarrow> (exn + string) \<times> event list" where
  "search_try ev serpapi_key entity prompt tr =
     (case py_format (render_field ev) prompt entity of
        Inl e \<Rightarrow> (Inl e, tr)
      | Inr query \<Rightarrow>
          (let params = search_params query serpapi_key;
               tr1 = tr @ [HttpGet search_url params]
           in case http_get ev tr search_url params of
                Inl e \<Rightarrow> (Inl e, tr1)
              | Inr r \<Rightarrow>
                  (case raise_for_status r of
                     Inl e \<Rightarrow> (Inl e, tr1)
                   | Inr u \<Rightarrow> (join_snippets r, tr1))))"

text \<open>
  \<^verbatim>\<open>search\<close>: the \<^verbatim>\<open>except\<close> clause of line 53 catches a \<^verbatim>\<open>RequestException\<close>, shows
  it and returns the empty string; any other exception leaves the method.
\<close>

definition search ::
  "env \<Rightarrow> string \<Rightarrow> string \<Rightarrow> string \<Rightarrow> event list \<Rightarrow> (exn + string) \<times> event list" where
  "search ev serpapi_key entity prompt tr =
     (case search_try ev serpapi_key entity prompt tr of
        (Inl e, tr1) \<Rightarrow>
          if is_RequestException e
          then (Inr [], tr1 @ [SidebarError ''Error during web search: '' e])
          else (Inl e, tr1)
      | (Inr s, tr1) \<Rightarrow> (Inr s, tr1))"

subsection \<open>\<^verbatim>\<open>LLMProcessor.extract_information\<close>\<close>

text \<open>
  \<^verbatim>\<open>str.isspace\<close> on one character, for the code points below 256, and \<^verbatim>\<open>str.strip()\<close>.
\<close>

definition py_isspace :: "char \<Rightarrow> bool" where
  "py_isspace c = ((of_char c :: nat) \<in> {9, 10, 11, 12, 13, 28, 29, 30, 31, 32, 133, 160})"

definition strip :: "string \<Rightarrow> string" where
  "strip s = rev (dropWhile py_isspace (rev (dropWhile py_isspace s)))"

text \<open>Line 86: \<^verbatim>\<open>response.choices[0].message.content.strip()\<close>.\<close>

definition first_choice_text :: "completion \<Rightarrow> exn + string" where
  "first_choice_text r =
     (case choices r of
        [] \<Rightarrow> Inl (IndexError ''list index out of range'')
      | c # cs \<Rightarrow>
          (case c of
             None \<Rightarrow> Inl (AttributeError ''strip'')
           | Some s \<Rightarrow> Inr (strip s)))"

definition system_message :: "(string \<times> string) list" where
  "system_message =
     [(''role'', ''system''),
      (''content'', ''You are a helpful assistant that extracts specific information from web search results.'')]"

definition user_message :: "string \<Rightarrow> string \<Rightarrow> (string \<times> string) list" where
  "user_message substituted search_results =
     [(''role'', ''user''),
      (''content'',
       ''Extract information from the following search results based on the prompt: ''
         @ [CHR 0x27] @ substituted @ [CHR 0x27]
         @ ''\<newline>\<newline>Search Results:\<newline>'' @ search_results
         @ ''\<newline>\<newline>Extracted Information:'')]"

definition completion_request :: "string \<Rightarrow> string \<Rightarrow> chat_request" where
  "completion_request substituted search_results =
     \<lparr>model = ''mixtral-8x7b-32768'',
      messages = [system_message, user_message substituted search_results],
      max_tokens = 150,
      temperature = 1 / 2\<rparr>"

text \<open>The \<^verbatim>\<open>try\<close> block, lines 80 to 86: the request and the reading of its answer.\<close>

definition completion_try :: "env \<Rightarrow> event list \<Rightarrow> chat_request \<Rightarrow> exn + string" where
  "completion_try ev tr req =
     (case chat_create ev tr req of
        Inl e \<Rightarrow> Inl e
      | Inr r \<Rightarrow> first_choice_text r)"

text \<open>
  \<^verbatim>\<open>extract_information\<close>: the messages are built before the \<^verbatim>\<open>try\<close>, so an exception
  of the substitution leaves the method; every exception of the \<^verbatim>\<open>try\<close> block is
  caught by line 87, shown, and the empty string returned.
\<close>

definition extract_information ::
  "env \<Rightarrow> string \<Rightarrow> string \<Rightarrow> string \<Rightarrow> event list \<Rightarrow> (exn + string) \<times> event list" where
  "extract_information ev entity prompt search_results tr =
     (case py_format (render_field ev) prompt entity of
        Inl e \<Rightarrow> (Inl e, tr)
      | Inr substituted \<Rightarrow>
          (let req = completion_request substituted search_results;
               tr1 = tr @ [ChatCreate req]
           in case completion_try ev tr req of
                Inl e \<Rightarrow> (Inr [], tr1 @ [SidebarError ''Error during LLM extraction: '' e])
              | Inr s \<Rightarrow> (Inr s, tr1)))"

subsection \<open>\<^verbatim>\<open>DataProcessor.process_entities\<close>\<close>

text \<open>The dict appended for one entity.\<close>

definition result_record :: "string \<Rightarrow> string \<Rightarrow> (string \<times> string) list" where
  "result_record entity info = [(''Entity'', entity), (''Extracted Information'', info)]"

text \<open>
  The loop of lines 110 to 116 over the entities still to do, with \<open>results\<close> the list
  built so far; an exception ends the loop and the list is lost.
\<close>

fun process_loop ::
  "env \<Rightarrow> string \<Rightarrow> string \<Rightarrow> string list \<Rightarrow> (string \<times> string) list list \<Rightarrow> event list
   \<Rightarrow> (exn + (string \<times> string) list list) \<times> event list" where
  "process_loop ev serpapi_key prompt [] results tr = (Inr results, tr)"
| "process_loop ev serpapi_key prompt (entity # entities) results tr =
     (case search ev serpapi_key entity prompt tr of
        (Inl e, tr1) \<Rightarrow> (Inl e, tr1)
      | (Inr search_results, tr1) \<Rightarrow>
          if search_results \<noteq> [] then
            (case extract_information ev entity prompt search_results tr1 of
               (Inl e, tr2) \<Rightarrow> (Inl e, tr2)
             | (Inr extracted_info, tr2) \<Rightarrow>
                 process_loop ev serpapi_key prompt entities
                   (results @ [result_record entity extracted_info]) tr2)
          else
            process_loop ev serpapi_key prompt entities
              (results @ [result_record entity ''No data found'']) tr1)"

definition process_entities ::
  "env \<Rightarrow> string \<Rightarrow> string list \<Rightarrow> string \<Rightarrow> event list
   \<Rightarrow> (exn + (string \<times> string) list list) \<times> event list" where
  "process_entities ev serpapi_key entities prompt tr =
     process_loop ev serpapi_key prompt entities [] tr"

subsection \<open>Sample worlds\<close>

text \<open>
  A renderer for templates that only use plain \<^verbatim>\<open>{entity}\<close> fields, and a world whose
  search service answers by the \<^verbatim>\<open>params\<close> of the request and whose completion
  service answers by the request.
\<close>

definition no_renderer :: field_renderer where
  "no_renderer entity accessors conversion spec = Inl (ValueError ''Invalid format specifier'')"

definition world ::
  "((string \<times> pyval) list \<Rightarrow> exn + response) \<Rightarrow> (chat_request \<Rightarrow> exn + completion) \<Rightarrow> env" where
  "world h c = \<lparr>http_get = (\<lambda>tr u p. h p), chat_create = (\<lambda>tr r. c r), render_field = no_renderer\<rparr>"

definition default_prompt :: string where
  "default_prompt = ''What is the main product or service of {entity}?''"

text \<open>A 200 response whose body has the given organic results.\<close>

definition organic :: "jsonval list \<Rightarrow> response" where
  "organic rs = \<lparr>status_code = 200, json = Inr (JObj [(''organic_results'', JArr rs)])\<rparr>"

text \<open>
  The search service of the end-to-end scenario: a snippet for Acme Corp, no result for
  Globex, and no connection for any other query.
\<close>

definition sample_search :: "(string \<times> pyval) list \<Rightarrow> exn + response" where
  "sample_search p =
     (if map_of p ''q'' = Some (PStr ''What is the main product or service of Acme Corp?'')
      then Inr (organic [JObj [(''snippet'', JStr ''Acme makes widgets.'')]])
      else if map_of p ''q'' = Some (PStr ''What is the main product or service of Globex?'')
      then Inr (organic [])
      else Inl (RequestException ''connection refused''))"

definition sample_completion :: "chat_request \<Rightarrow> exn + completion" where
  "sample_completion r = Inr \<lparr>choices = [Some '' Widgets.\<newline>'']\<rparr>"

definition failing_completion :: "chat_request \<Rightarrow> exn + completion" where
  "failing_completion r = Inl (OtherException ''rate limit reached'')"

text \<open>A search service that gives the same response to every request.\<close>

definition always :: "response \<Rightarrow> (string \<times> pyval) list \<Rightarrow> exn + response" where
  "always r p = Inr r"

text \<open>Three organic results, the second without a snippet.\<close>

definition gap_results :: "jsonval list" where
  "gap_results = [JObj [(''snippet'', JStr ''a'')], JObj [], JObj [(''snippet'', JStr ''b'')]]"

text \<open>Two organic results, neither with a snippet.\<close>

definition bare_results :: "jsonval list" where
  "bare_results = [JObj [(''title'', JStr ''Acme'')], JObj [(''link'', JStr ''https://acme.example'')]]"

lemmas sample_defs =
  world_def no_renderer_def default_prompt_def organic_def sample_search_def
  sample_completion_def failing_completion_def

lemmas format_defs =
  py_format_def output_markup_def get_integer_def is_decimal_def digit_val_def PY_SSIZE_T_MAX_def

lemmas search_defs =
  search_def search_try_def search_params_def search_url_def raise_for_status_def
  join_snippets_def

lemmas extraction_defs =
  extract_information_def completion_try_def completion_request_def first_choice_text_def
  system_message_def user_message_def strip_def py_isspace_def

section \<open>Properties\<close>

subsection \<open>Template substitution and the two services\<close>

lemma build_string_plain:
  "CHR ''{'' \<notin> set s \<Longrightarrow> CHR ''}'' \<notin> set s \<Longrightarrow> build_string rf e Literal out s = Inr (out @ s)"
  by (induction s arbitrary: out) auto

lemma py_format_plain:
  "CHR ''{'' \<notin> set P \<Longrightarrow> CHR ''}'' \<notin> set P \<Longrightarrow> py_format rf P e = Inr P"
  by (simp add: py_format_def build_string_plain)

lemma search_trace:
  assumes "py_format (render_field ev) P e = Inr q"
  shows "\<exists>t. snd (search ev k e P tr) = tr @ HttpGet search_url (search_params q k) # t
           \<and> (t = [] \<or> (\<exists>ex. t = [SidebarError ''Error during web search: '' ex]))"
  using assms
  by (auto simp: search_def search_try_def Let_def split: sum.splits prod.splits)

lemma search_nonempty:
  assumes "search ev k e P tr = (Inr s, tr2)" and "s \<noteq> []"
  shows "\<exists>q. py_format (render_field ev) P e = Inr q
           \<and> tr2 = tr @ [HttpGet search_url (search_params q k)]"
  using assms
  by (auto simp: search_def search_try_def Let_def split: sum.splits prod.splits if_splits)

lemma extract_information_returns:
  assumes "py_format (render_field ev) P e = Inr q"
  shows "\<exists>s t. extract_information ev e P sr tr = (Inr s, tr @ ChatCreate (completion_request q sr) # t)
           \<and> (t = [] \<or> (\<exists>ex. t = [SidebarError ''Error during LLM extraction: '' ex]))"
  using assms
  by (auto simp: extract_information_def Let_def split: sum.splits)

subsection \<open>The loop\<close>

lemma process_loop_append:
  "process_loop ev k P (xs @ ys) acc tr =
     (case process_loop ev k P xs acc tr of
        (Inl ex, t) \<Rightarrow> (Inl ex, t)
      | (Inr rs, t) \<Rightarrow> process_loop ev k P ys rs t)"
  by (induction xs arbitrary: acc tr) (auto split: prod.splits sum.splits)

lemma process_loop_acc:
  "process_loop ev k P E acc tr = (Inr rs, t) \<Longrightarrow>
     \<exists>new. rs = acc @ new \<and> length new = length E
        \<and> (\<forall>i<length E. map_of (new ! i) ''Entity'' = Some (E ! i))"
proof (induction E arbitrary: acc tr)
  case Nil
  then show ?case by simp
next
  case (Cons e E)
  from Cons.prems obtain r t1 where
    step: "process_loop ev k P E (acc @ [result_record e r]) t1 = (Inr rs, t)"
    by (auto split: prod.splits sum.splits if_splits)
  from Cons.IH[OF step] obtain new where
    new: "rs = (acc @ [result_record e r]) @ new" "length new = length E"
      "\<forall>i<length E. map_of (new ! i) ''Entity'' = Some (E ! i)"
    by blast
  have "\<forall>i<length (e # E). map_of ((result_record e r # new) ! i) ''Entity'' = Some ((e # E) ! i)"
    using new(3) by (auto simp: nth_Cons result_record_def split: nat.splits)
  with new(1,2) show ?case
    by (intro exI[of _ "result_record e r # new"]) simp
qed

lemma process_loop_total:
  assumes "\<forall>e\<in>set E. \<forall>t. \<exists>s. fst (search ev k e P t) = Inr s"
  shows "\<exists>rs t. process_loop ev k P E acc tr = (Inr rs, t)"
  using assms
proof (induction E arbitrary: acc tr)
  case Nil
  then show ?case by simp
next
  case (Cons e E)
  then obtain s tr1 where s: "search ev k e P tr = (Inr s, tr1)"
    by (metis list.set_intros(1) prod.collapse)
  have rest: "\<forall>e\<in>set E. \<forall>t. \<exists>s. fst (search ev k e P t) = Inr s"
    using Cons.prems by simp
  show ?case
  proof (cases "s = []")
    case True
    with s Cons.IH[OF rest] show ?thesis by simp
  next
    case False
    from search_nonempty[OF s False] obtain q where "py_format (render_field ev) P e = Inr q"
      by blast
    from extract_information_returns[OF this] obtain info t where
      "extract_information ev e P s tr1 = (Inr info, t)" by blast
    with s False Cons.IH[OF rest] show ?thesis by simp
  qed
qed

subsection \<open>One record per entity\<close>

text \<open>
  C1, as the code has it: \<^verbatim>\<open>process_entities(E, P)\<close> returns unless a call of
  \<^verbatim>\<open>search\<close> raises, and it returns whenever no call of \<^verbatim>\<open>search\<close> can raise.
  Whenever it returns, the list has the length of \<open>E\<close> and its \<open>i\<close>-th record has
  the \<^verbatim>\<open>Entity\<close> field \<open>E[i]\<close>: order and multiplicity are kept, duplicates and the
  empty string included, whatever the searches and extractions answered.
\<close>

theorem process_entities_keeps_every_entity:
  "(\<forall>rs t. process_entities ev k E P tr = (Inr rs, t) \<longrightarrow>
       length rs = length E \<and> (\<forall>i<length E. map_of (rs ! i) ''Entity'' = Some (E ! i)))
   \<and> ((\<forall>e\<in>set E. \<forall>t. \<exists>s. fst (search ev k e P t) = Inr s) \<longrightarrow>
        (\<exists>rs t. process_entities ev k E P tr = (Inr rs, t)))"
proof -
  have "length rs = length E \<and> (\<forall>i<length E. map_of (rs ! i) ''Entity'' = Some (E ! i))"
    if "process_entities ev k E P tr = (Inr rs, t)" for rs t
  proof -
    from that have "process_loop ev k P E [] tr = (Inr rs, t)"
      by (simp add: process_entities_def)
    from process_loop_acc[OF this] show ?thesis by auto
  qed
  moreover have "\<exists>rs t. process_entities ev k E P tr = (Inr rs, t)"
    if "\<forall>e\<in>set E. \<forall>t. \<exists>s. fst (search ev k e P t) = Inr s"
    using process_loop_total[OF that] by (simp add: process_entities_def)
  ultimately show ?thesis by blast
qed

text \<open>
  With the search service down for the empty entity and the completion service failing
  for the other two, the three entities still give three records.
\<close>

theorem process_entities_keeps_every_entity_witness:
  "(\<forall>t. \<exists>s. fst (search (world sample_search failing_completion) ''key''
                   ''Acme Corp'' default_prompt t) = Inr s)
   \<and> (\<forall>t. \<exists>s. fst (search (world sample_search failing_completion) ''key''
                   '''' default_prompt t) = Inr s)
   \<and> (\<exists>rs t. process_entities (world sample_search failing_completion) ''key''
          [''Acme Corp'', '''', ''Acme Corp''] default_prompt [] = (Inr rs, t)
        \<and> length rs = 3 \<and> map_of (rs ! 1) ''Entity'' = Some '''')"
proof -
  let ?W = "world sample_search failing_completion"
  let ?E = "[''Acme Corp'', '''', ''Acme Corp'']"
  have h: "\<forall>e\<in>set ?E. \<forall>t. \<exists>s. fst (search ?W ''key'' e default_prompt t) = Inr s"
    by (simp add: sample_defs format_defs search_defs)
  from process_entities_keeps_every_entity[of ?W "''key''" ?E default_prompt "[]"] h
  obtain rs t where r: "process_entities ?W ''key'' ?E default_prompt [] = (Inr rs, t)"
    and p: "length rs = length ?E \<and> (\<forall>i<length ?E. map_of (rs ! i) ''Entity'' = Some (?E ! i))"
    by blast
  from p have "length rs = 3" "map_of (rs ! 1) ''Entity'' = Some ''''" by auto
  with h r show ?thesis by auto
qed

text \<open>
  The claim as stated, for every template: a template that names another field makes
  \<^verbatim>\<open>prompt.format\<close> raise \<^verbatim>\<open>KeyError\<close> inside \<^verbatim>\<open>search\<close>, which line 53 does not
  catch, and no list is returned.
\<close>

theorem process_entities_keeps_every_entity_counterexample:
  "fst (process_entities (world sample_search sample_completion) ''key''
         [''Acme Corp''] ''What does {company} sell?'' []) = Inl (KeyError ''company'')"
  by (simp add: process_entities_def sample_defs format_defs search_defs)

subsection \<open>What the two methods catch\<close>

lemma search_no_completion:
  "filter is_ChatCreate (snd (search ev k e P tr)) = filter is_ChatCreate tr"
  by (auto simp: search_def search_try_def Let_def split: sum.splits prod.splits)

lemma search_try_caught:
  "search_try ev k e P t = (Inl ex, t1) \<Longrightarrow> is_RequestException ex \<Longrightarrow>
     search ev k e P t = (Inr [], t1 @ [SidebarError ''Error during web search: '' ex])"
  by (simp add: search_def)

lemma search_try_returns:
  "search_try ev k e P t = (Inr s, t1) \<Longrightarrow> search ev k e P t = (Inr s, t1)"
  by (simp add: search_def)

lemma extract_information_caught:
  "py_format (render_field ev) P e = Inr q \<Longrightarrow>
   completion_try ev t (completion_request q sr) = Inl ex \<Longrightarrow>
     extract_information ev e P sr t =
       (Inr [], t @ [ChatCreate (completion_request q sr), SidebarError ''Error during LLM extraction: '' ex])"
  by (simp add: extract_information_def Let_def)

lemma process_entities_snoc:
  assumes "process_entities ev k xs P tr = (Inr rs1, tr1)"
  shows "process_entities ev k (xs @ e # ys) P tr = process_loop ev k P (e # ys) rs1 tr1"
  using assms by (simp add: process_entities_def process_loop_append)

lemma process_loop_prefix:
  assumes "process_loop ev k P ys acc t = (Inr rs, t')" and "i < length acc"
  shows "rs ! i = acc ! i"
  using process_loop_acc[OF assms(1)] assms(2) by (auto simp: nth_append)

lemma process_entities_length:
  assumes "process_entities ev k xs P tr = (Inr rs1, tr1)"
  shows "length rs1 = length xs"
  using process_loop_acc[of ev k P xs "[]" tr rs1 tr1] assms by (auto simp: process_entities_def)

subsection \<open>Joining the snippets\<close>

text \<open>
  C2, as the code has it: for the organic results \<^verbatim>\<open>[{snippet:"a"}, {}, {snippet:"b"}]\<close>
  of a response that passes the status check, \<^verbatim>\<open>search\<close> returns the string
  \<^verbatim>\<open>"a\n\nb"\<close>: line 51 reads the missing snippet as the empty string, and the join
  of line 52 puts a newline on each side of it.
\<close>

theorem search_keeps_empty_snippet:
  assumes fmt: "py_format (render_field ev) P e = Inr q"
      and get: "http_get ev tr search_url (search_params q k) = Inr r"
      and ok: "\<not> (400 \<le> status_code r \<and> status_code r < 600)"
      and body: "json r = Inr (JObj kvs)"
      and res: "map_of kvs ''organic_results'' =
                  Some (JArr [JObj [(''snippet'', JStr ''a'')], JObj [], JObj [(''snippet'', JStr ''b'')]])"
  shows "fst (search ev k e P tr) = Inr ''a\<newline>\<newline>b''"
  using assms by (simp add: search_defs Let_def)

text \<open>
  The response of the claim, served to the default prompt.
\<close>

theorem search_keeps_empty_snippet_witness:
  "fst (search (world (always (organic gap_results)) sample_completion) ''key''
         ''Acme Corp'' default_prompt []) = Inr ''a\<newline>\<newline>b''"
  by (rule search_keeps_empty_snippet[where q = "''What is the main product or service of Acme Corp?''"
        and r = "organic gap_results" and kvs = "[(''organic_results'', JArr gap_results)]"])
     (simp_all add: sample_defs always_def gap_results_def format_defs search_defs)

text \<open>
  The claim as stated: the string returned is not \<^verbatim>\<open>"a\nb"\<close>.
\<close>

theorem search_keeps_empty_snippet_counterexample:
  "fst (search (world (always (organic gap_results)) sample_completion) ''key''
         ''Acme Corp'' default_prompt []) \<noteq> Inr ''a\<newline>b''"
  by (simp add: sample_defs always_def gap_results_def format_defs search_defs)

subsection \<open>Exceptions at the two boundaries\<close>

lemma search_try_escapes:
  "search_try ev k e P t = (Inl ex, t1) \<Longrightarrow> \<not> is_RequestException ex \<Longrightarrow>
     search ev k e P t = (Inl ex, t1)"
  by (simp add: search_def)

lemma is_RequestException_iff:
  "is_RequestException ex \<longleftrightarrow> (\<exists>m. ex = RequestException m) \<or> (\<exists>c. ex = HTTPError c)"
  by (cases ex) auto

lemma search_try_format_error:
  "py_format (render_field ev) P e = Inl ex \<Longrightarrow> search_try ev k e P t = (Inl ex, t)"
  by (simp add: search_try_def)

lemma extract_information_format_error:
  "py_format (render_field ev) P e = Inl ex \<Longrightarrow> extract_information ev e P sr t = (Inl ex, t)"
  by (simp add: extract_information_def)

lemma raised_search_ends_run:
  assumes "process_entities ev k xs P tr = (Inr rs1, tr1)"
      and "search ev k e P tr1 = (Inl ex, t)"
  shows "process_entities ev k (xs @ e # ys) P tr = (Inl ex, t)"
  using process_entities_snoc[OF assms(1), of e ys] assms(2) by simp

text \<open>
  C3, as the code has it. An exception raised inside the \<^verbatim>\<open>try\<close> block of \<^verbatim>\<open>search\<close>
  is caught by line 53, shown, and turned into the empty string exactly when it is a
  \<^verbatim>\<open>RequestException\<close> (a failed request, the \<^verbatim>\<open>HTTPError\<close> of a 4xx or 5xx status, a
  body that requests 2.27 or later cannot decode); an exception of any other class
  leaves \<^verbatim>\<open>search\<close> as it is, and with it \<^verbatim>\<open>process_entities\<close>, at whatever position
  the entity stands. An exception of the template substitution leaves
  \<^verbatim>\<open>extract_information\<close>, and \<^verbatim>\<open>search\<close> too unless it is a \<^verbatim>\<open>RequestException\<close>.
  Where the template substitutes, \<^verbatim>\<open>extract_information\<close> returns, with the empty
  string for every exception of its \<^verbatim>\<open>try\<close> block. When every exception raised inside
  the \<^verbatim>\<open>try\<close> block of \<^verbatim>\<open>search\<close> is a \<^verbatim>\<open>RequestException\<close>, no exception leaves
  \<^verbatim>\<open>process_entities\<close>.
\<close>

theorem failures_caught_at_boundary:
  "(\<forall>t ex t1. search_try ev k e P t = (Inl ex, t1) \<longrightarrow>
       (if (\<exists>m. ex = RequestException m) \<or> (\<exists>c. ex = HTTPError c)
        then search ev k e P t = (Inr [], t1 @ [SidebarError ''Error during web search: '' ex])
        else search ev k e P t = (Inl ex, t1)))
   \<and> (\<forall>t sr ex. py_format (render_field ev) P e = Inl ex \<longrightarrow>
         extract_information ev e P sr t = (Inl ex, t)
         \<and> ((\<forall>m. ex \<noteq> RequestException m) \<and> (\<forall>c. ex \<noteq> HTTPError c) \<longrightarrow>
              search ev k e P t = (Inl ex, t)))
   \<and> (\<forall>t sr q. py_format (render_field ev) P e = Inr q \<longrightarrow>
         (\<exists>s. fst (extract_information ev e P sr t) = Inr s)
         \<and> (\<forall>ex. completion_try ev t (completion_request q sr) = Inl ex \<longrightarrow>
               extract_information ev e P sr t =
                 (Inr [], t @ [ChatCreate (completion_request q sr),
                               SidebarError ''Error during LLM extraction: '' ex])))
   \<and> (\<forall>xs ys rs1 tr1 ex t. process_entities ev k xs P tr = (Inr rs1, tr1)
           \<and> search ev k e P tr1 = (Inl ex, t) \<longrightarrow>
         process_entities ev k (xs @ e # ys) P tr = (Inl ex, t))
   \<and> ((\<forall>e\<in>set E. \<forall>t ex t1. search_try ev k e P t = (Inl ex, t1) \<longrightarrow>
            (\<exists>m. ex = RequestException m) \<or> (\<exists>c. ex = HTTPError c)) \<longrightarrow>
        (\<exists>rs t. process_entities ev k E P tr = (Inr rs, t)))"
proof -
  have 1: "if (\<exists>m. ex = RequestException m) \<or> (\<exists>c. ex = HTTPError c)
        then search ev k e P t = (Inr [], t1 @ [SidebarError ''Error during web search: '' ex])
        else search ev k e P t = (Inl ex, t1)"
    if "search_try ev k e P t = (Inl ex, t1)" for t ex t1
    using search_try_caught[OF that] search_try_escapes[OF that]
    by (simp add: is_RequestException_iff)
  have 2: "extract_information ev e P sr t = (Inl ex, t)
         \<and> ((\<forall>m. ex \<noteq> RequestException m) \<and> (\<forall>c. ex \<noteq> HTTPError c) \<longrightarrow>
              search ev k e P t = (Inl ex, t))"
    if "py_format (render_field ev) P e = Inl ex" for t sr ex
    using extract_information_format_error[OF that, of sr t]
      search_try_escapes[OF search_try_format_error[OF that, of k t]]
    by (auto simp: is_RequestException_iff)
  have 3: "(\<exists>s. fst (extract_information ev e P sr t) = Inr s)
         \<and> (\<forall>ex. completion_try ev t (completion_request q sr) = Inl ex \<longrightarrow>
               extract_information ev e P sr t =
                 (Inr [], t @ [ChatCreate (completion_request q sr),
                               SidebarError ''Error during LLM extraction: '' ex]))"
    if "py_format (render_field ev) P e = Inr q" for t sr q
    using extract_information_returns[OF that, of sr t] extract_information_caught[OF that, of t sr]
    by auto
  have 4: "process_entities ev k (xs @ e # ys) P tr = (Inl ex, t)"
    if "process_entities ev k xs P tr = (Inr rs1, tr1) \<and> search ev k e P tr1 = (Inl ex, t)"
    for xs ys rs1 tr1 ex t
    using that raised_search_ends_run by blast
  have 5: "\<exists>rs t. process_entities ev k E P tr = (Inr rs, t)"
    if req: "\<forall>e\<in>set E. \<forall>t ex t1. search_try ev k e P t = (Inl ex, t1) \<longrightarrow>
            (\<exists>m. ex = RequestException m) \<or> (\<exists>c. ex = HTTPError c)"
  proof -
    have "\<exists>s. fst (search ev k x P t) = Inr s" if x: "x \<in> set E" for x t
    proof (cases "search_try ev k x P t")
      case (Pair res t1)
      show ?thesis
      proof (cases res)
        case (Inl ex)
        with Pair req x have "is_RequestException ex"
          unfolding is_RequestException_iff by blast
        from search_try_caught[OF _ this, of ev k x P t t1] Pair Inl show ?thesis by simp
      next
        case (Inr s)
        with Pair search_try_returns[of ev k x P t s t1] show ?thesis by simp
      qed
    qed
    then have "\<forall>e\<in>set E. \<forall>t. \<exists>s. fst (search ev k e P t) = Inr s" by blast
    from process_loop_total[OF this] show ?thesis by (simp add: process_entities_def)
  qed
  from 1 2 3 4 5 show ?thesis by blast
qed

text \<open>
  The search service has no connection for Initech and the completion service fails for
  Acme Corp: both are caught. A search service that answers with a JSON list makes line
  49 raise \<^verbatim>\<open>AttributeError\<close>, which leaves \<^verbatim>\<open>process_entities\<close> before Globex is
  reached.
\<close>

theorem failures_caught_at_boundary_witness:
  "(\<exists>rs t. process_entities (world sample_search failing_completion) ''key''
        [''Acme Corp'', ''Initech''] default_prompt [] = (Inr rs, t))
   \<and> search (world sample_search failing_completion) ''key'' ''Initech'' default_prompt []
       = (Inr [],
          [HttpGet search_url (search_params ''What is the main product or service of Initech?'' ''key''),
           SidebarError ''Error during web search: '' (RequestException ''connection refused'')])
   \<and> extract_information (world sample_search failing_completion) ''Acme Corp'' default_prompt
        ''Acme makes widgets.'' []
       = (Inr [],
          [ChatCreate (completion_request ''What is the main product or service of Acme Corp?''
                         ''Acme makes widgets.''),
           SidebarError ''Error during LLM extraction: '' (OtherException ''rate limit reached'')])
   \<and> process_entities (world (always \<lparr>status_code = 200, json = Inr (JArr [])\<rparr>) sample_completion)
        ''key'' [''Acme Corp'', ''Globex''] default_prompt []
       = (Inl (AttributeError ''get''),
          [HttpGet search_url (search_params ''What is the main product or service of Acme Corp?'' ''key'')])"
proof -
  let ?W = "world sample_search failing_completion"
  let ?V = "world (always \<lparr>status_code = 200, json = Inr (JArr [])\<rparr>) sample_completion"
  let ?E = "[''Acme Corp'', ''Initech'']"
  let ?qa = "''What is the main product or service of Acme Corp?''"
  let ?qi = "''What is the main product or service of Initech?''"
  have h: "\<forall>e\<in>set ?E. \<forall>t ex t1. search_try ?W ''key'' e default_prompt t = (Inl ex, t1)
             \<longrightarrow> (\<exists>m. ex = RequestException m) \<or> (\<exists>c. ex = HTTPError c)"
    by (auto simp: sample_defs format_defs search_defs)
  have s: "search_try ?W ''key'' ''Initech'' default_prompt [] =
             (Inl (RequestException ''connection refused''), [HttpGet search_url (search_params ?qi ''key'')])"
    by (simp add: sample_defs format_defs search_defs)
  have f: "py_format (render_field ?W) default_prompt ''Acme Corp'' = Inr ?qa"
    by (simp add: sample_defs format_defs)
  have c: "completion_try ?W [] (completion_request ?qa ''Acme makes widgets.'')
             = Inl (OtherException ''rate limit reached'')"
    by (simp add: sample_defs completion_try_def)
  have v: "search_try ?V ''key'' ''Acme Corp'' default_prompt [] =
             (Inl (AttributeError ''get''), [HttpGet search_url (search_params ?qa ''key'')])"
    by (simp add: sample_defs always_def format_defs search_defs)
  have p: "process_entities ?V ''key'' [] default_prompt [] = (Inr [], [])"
    by (simp add: process_entities_def)
  note A = failures_caught_at_boundary[where ev = ?W and k = "''key''" and e = "''Initech''"
             and P = default_prompt and E = ?E and tr = "[]"]
  note B = failures_caught_at_boundary[where ev = ?W and k = "''key''" and e = "''Acme Corp''"
             and P = default_prompt and E = ?E and tr = "[]"]
  note C = failures_caught_at_boundary[where ev = ?V and k = "''key''" and e = "''Acme Corp''"
             and P = default_prompt and E = "[]" and tr = "[]"]
  from A h have 1: "\<exists>rs t. process_entities ?W ''key'' ?E default_prompt [] = (Inr rs, t)"
    by blast
  from A s have 2: "search ?W ''key'' ''Initech'' default_prompt []
       = (Inr [], [HttpGet search_url (search_params ?qi ''key''),
           SidebarError ''Error during web search: '' (RequestException ''connection refused'')])"
    by fastforce
  from B f c have 3: "extract_information ?W ''Acme Corp'' default_prompt ''Acme makes widgets.'' []
       = (Inr [], [ChatCreate (completion_request ?qa ''Acme makes widgets.''),
           SidebarError ''Error during LLM extraction: '' (OtherException ''rate limit reached'')])"
    by fastforce
  from C v have "search ?V ''key'' ''Acme Corp'' default_prompt []
                   = (Inl (AttributeError ''get''), [HttpGet search_url (search_params ?qa ''key'')])"
    by fastforce
  with C p have 4: "process_entities ?V ''key'' ([] @ ''Acme Corp'' # [''Globex'']) default_prompt []
       = (Inl (AttributeError ''get''), [HttpGet search_url (search_params ?qa ''key'')])"
    by blast
  from 1 2 3 4 show ?thesis by simp
qed

text \<open>
  The claim as stated: the template \<^verbatim>\<open>Summarize {} in one line\<close> makes
  \<^verbatim>\<open>prompt.format(entity=entity)\<close> raise \<^verbatim>\<open>IndexError\<close>, which leaves \<^verbatim>\<open>search\<close>,
  \<^verbatim>\<open>extract_information\<close> and \<^verbatim>\<open>process_entities\<close>.
\<close>

theorem failures_caught_at_boundary_counterexample:
  "fst (search (world sample_search sample_completion) ''key'' ''Acme Corp''
          ''Summarize {} in one line'' [])
     = Inl (IndexError ''Replacement index out of range for positional args tuple'')
   \<and> fst (extract_information (world sample_search sample_completion) ''Acme Corp''
          ''Summarize {} in one line'' ''Acme makes widgets.'' [])
     = Inl (IndexError ''Replacement index out of range for positional args tuple'')
   \<and> fst (process_entities (world sample_search sample_completion) ''key'' [''Acme Corp'']
          ''Summarize {} in one line'' [])
     = Inl (IndexError ''Replacement index out of range for positional args tuple'')"
  by (simp add: process_entities_def sample_defs format_defs search_defs extract_information_def)

subsection \<open>The record of an entity whose search is empty\<close>

text \<open>
  C4: when the entities before \<open>e\<close> have been processed and \<^verbatim>\<open>search\<close> returns
  the empty string for \<open>e\<close>, the record appended for \<open>e\<close> has
  \<^verbatim>\<open>Extracted Information\<close> equal to \<^verbatim>\<open>No data found\<close>, in the list after \<open>e\<close> and in
  the list returned for any longer input, and \<^verbatim>\<open>extract_information\<close> is not called
  for \<open>e\<close>: the trace after \<open>e\<close> is the trace \<^verbatim>\<open>search\<close> left, with no completion
  request added.
\<close>

theorem empty_search_gives_no_data_found:
  assumes pre: "process_entities ev k xs P tr = (Inr rs1, tr1)"
      and srch: "search ev k e P tr1 = (Inr [], tr2)"
  shows "process_entities ev k (xs @ [e]) P tr = (Inr (rs1 @ [result_record e ''No data found'']), tr2)
       \<and> filter is_ChatCreate tr2 = filter is_ChatCreate tr1
       \<and> (\<forall>ys rs t. process_entities ev k (xs @ e # ys) P tr = (Inr rs, t) \<longrightarrow>
            rs ! length xs = result_record e ''No data found''
            \<and> map_of (rs ! length xs) ''Extracted Information'' = Some ''No data found'')"
proof -
  have step: "process_entities ev k (xs @ e # ys) P tr =
                process_loop ev k P ys (rs1 @ [result_record e ''No data found'']) tr2" for ys
    using process_entities_snoc[OF pre, of e ys] srch by simp
  have 1: "process_entities ev k (xs @ [e]) P tr = (Inr (rs1 @ [result_record e ''No data found'']), tr2)"
    using step[of "[]"] by simp
  have 2: "filter is_ChatCreate tr2 = filter is_ChatCreate tr1"
    using search_no_completion[of ev k e P tr1] srch by simp
  have 3: "rs ! length xs = result_record e ''No data found''
            \<and> map_of (rs ! length xs) ''Extracted Information'' = Some ''No data found''"
    if "process_entities ev k (xs @ e # ys) P tr = (Inr rs, t)" for ys rs t
  proof -
    from that step[of ys]
    have "process_loop ev k P ys (rs1 @ [result_record e ''No data found'']) tr2 = (Inr rs, t)"
      by simp
    from process_loop_prefix[OF this, of "length xs"] process_entities_length[OF pre]
    have "rs ! length xs = result_record e ''No data found''" by (simp add: nth_append)
    then show ?thesis by (simp add: result_record_def)
  qed
  from 1 2 3 show ?thesis by blast
qed

text \<open>
  The end-to-end scenario: a snippet for Acme Corp, no result for Globex.
\<close>

theorem empty_search_gives_no_data_found_witness:
  "process_entities (world sample_search sample_completion) ''key'' [''Acme Corp'', ''Globex''] default_prompt []
     = (Inr [result_record ''Acme Corp'' ''Widgets.'', result_record ''Globex'' ''No data found''],
        [HttpGet search_url (search_params ''What is the main product or service of Acme Corp?'' ''key''),
         ChatCreate (completion_request ''What is the main product or service of Acme Corp?'' ''Acme makes widgets.''),
         HttpGet search_url (search_params ''What is the main product or service of Globex?'' ''key'')])"
proof -
  let ?W = "world sample_search sample_completion"
  let ?t1 = "[HttpGet search_url (search_params ''What is the main product or service of Acme Corp?'' ''key''),
         ChatCreate (completion_request ''What is the main product or service of Acme Corp?'' ''Acme makes widgets.'')]"
  have pre: "process_entities ?W ''key'' [''Acme Corp''] default_prompt []
               = (Inr [result_record ''Acme Corp'' ''Widgets.''], ?t1)"
    by (simp add: process_entities_def sample_defs format_defs search_defs extraction_defs)
  have srch: "search ?W ''key'' ''Globex'' default_prompt ?t1
               = (Inr [], ?t1 @ [HttpGet search_url (search_params ''What is the main product or service of Globex?'' ''key'')])"
    by (simp add: sample_defs format_defs search_defs)
  from empty_search_gives_no_data_found[OF pre srch] show ?thesis by simp
qed

subsection \<open>The record of an entity whose extraction fails\<close>

text \<open>
  C5: when the entities before \<open>e\<close> have been processed, \<^verbatim>\<open>search\<close> returns a
  non-empty text for \<open>e\<close> and the \<^verbatim>\<open>try\<close> block of \<^verbatim>\<open>extract_information\<close> raises
  (the completion call fails, or the response has no choice, or its first choice has no
  text), \<^verbatim>\<open>extract_information\<close> shows the error and returns the empty string, and the
  record appended for \<open>e\<close> has \<^verbatim>\<open>Extracted Information\<close> equal to the empty string,
  not \<^verbatim>\<open>No data found\<close>.
\<close>

theorem failed_completion_gives_empty_text:
  assumes pre: "process_entities ev k xs P tr = (Inr rs1, tr1)"
      and srch: "search ev k e P tr1 = (Inr sr, tr2)"
      and ne: "sr \<noteq> []"
      and fmt: "py_format (render_field ev) P e = Inr q"
      and fail: "completion_try ev tr2 (completion_request q sr) = Inl ex"
  shows "extract_information ev e P sr tr2 =
           (Inr [], tr2 @ [ChatCreate (completion_request q sr),
                           SidebarError ''Error during LLM extraction: '' ex])
       \<and> process_entities ev k (xs @ [e]) P tr =
           (Inr (rs1 @ [result_record e []]),
            tr2 @ [ChatCreate (completion_request q sr),
                   SidebarError ''Error during LLM extraction: '' ex])
       \<and> (\<forall>ys rs t. process_entities ev k (xs @ e # ys) P tr = (Inr rs, t) \<longrightarrow>
            map_of (rs ! length xs) ''Extracted Information'' = Some [])"
proof -
  let ?t3 = "tr2 @ [ChatCreate (completion_request q sr),
                    SidebarError ''Error during LLM extraction: '' ex]"
  have ext: "extract_information ev e P sr tr2 = (Inr [], ?t3)"
    by (rule extract_information_caught[OF fmt fail])
  have step: "process_entities ev k (xs @ e # ys) P tr =
                process_loop ev k P ys (rs1 @ [result_record e []]) ?t3" for ys
    using process_entities_snoc[OF pre, of e ys] srch ne ext by simp
  have 2: "process_entities ev k (xs @ [e]) P tr = (Inr (rs1 @ [result_record e []]), ?t3)"
    using step[of "[]"] by simp
  have 3: "map_of (rs ! length xs) ''Extracted Information'' = Some []"
    if "process_entities ev k (xs @ e # ys) P tr = (Inr rs, t)" for ys rs t
  proof -
    from that step[of ys]
    have "process_loop ev k P ys (rs1 @ [result_record e []]) ?t3 = (Inr rs, t)" by simp
    from process_loop_prefix[OF this, of "length xs"] process_entities_length[OF pre]
    have "rs ! length xs = result_record e []" by (simp add: nth_append)
    then show ?thesis by (simp add: result_record_def)
  qed
  from ext 2 3 show ?thesis by blast
qed

text \<open>
  A snippet is found for Acme Corp and the completion service refuses the request.
\<close>

theorem failed_completion_gives_empty_text_witness:
  "process_entities (world sample_search failing_completion) ''key'' [''Acme Corp''] default_prompt []
     = (Inr [result_record ''Acme Corp'' []],
        [HttpGet search_url (search_params ''What is the main product or service of Acme Corp?'' ''key''),
         ChatCreate (completion_request ''What is the main product or service of Acme Corp?''
                       ''Acme makes widgets.''),
         SidebarError ''Error during LLM extraction: '' (OtherException ''rate limit reached'')])"
proof -
  let ?W = "world sample_search failing_completion"
  let ?q = "''What is the main product or service of Acme Corp?''"
  have pre: "process_entities ?W ''key'' [] default_prompt [] = (Inr [], [])"
    by (simp add: process_entities_def)
  have srch: "search ?W ''key'' ''Acme Corp'' default_prompt []
                = (Inr ''Acme makes widgets.'', [] @ [HttpGet search_url (search_params ?q ''key'')])"
    by (simp add: sample_defs format_defs search_defs)
  have ne: "''Acme makes widgets.'' \<noteq> []" by simp
  have fmt: "py_format (render_field ?W) default_prompt ''Acme Corp'' = Inr ?q"
    by (simp add: sample_defs format_defs)
  have fail: "completion_try ?W ([] @ [HttpGet search_url (search_params ?q ''key'')])
                (completion_request ?q ''Acme makes widgets.'') = Inl (OtherException ''rate limit reached'')"
    by (simp add: sample_defs completion_try_def)
  from failed_completion_gives_empty_text[OF pre srch ne fmt fail] show ?thesis by simp
qed

subsection \<open>Templates without a placeholder\<close>

text \<open>
  C6, as the code has it: for a template with no brace character, \<^verbatim>\<open>{\<close> or \<^verbatim>\<open>}\<close>,
  the substitution returns the template unchanged for every entity, so the \<^verbatim>\<open>q\<close> of
  the search request and the prompt quoted in the user message of the completion request
  are the template itself.
\<close>

theorem template_without_braces_is_literal:
  assumes "CHR ''{'' \<notin> set P" and "CHR ''}'' \<notin> set P"
  shows "py_format (render_field ev) P e = Inr P
       \<and> (\<exists>t. snd (search ev k e P tr) =
                 tr @ HttpGet search_url [(''q'', PStr P), (''api_key'', PStr k), (''num'', PInt 5)] # t)
       \<and> (\<exists>t. snd (extract_information ev e P sr tr) =
                 tr @ ChatCreate (completion_request P sr) # t)"
proof -
  have f: "py_format (render_field ev) P e = Inr P"
    by (rule py_format_plain[OF assms])
  from search_trace[OF f, of k tr] extract_information_returns[OF f, of sr tr] f
  show ?thesis by (auto simp: search_params_def)
qed

text \<open>
  A question with no brace, for two entities.
\<close>

theorem template_without_braces_is_literal_witness:
  "py_format (render_field (world sample_search sample_completion)) ''Who founded this company?'' ''Acme Corp''
     = Inr ''Who founded this company?''
   \<and> py_format (render_field (world sample_search sample_completion)) ''Who founded this company?'' ''Globex''
     = Inr ''Who founded this company?''"
  using template_without_braces_is_literal[of "''Who founded this company?''"
          "world sample_search sample_completion" "''Acme Corp''" "''key''" "[]" "''x''"]
        template_without_braces_is_literal[of "''Who founded this company?''"
          "world sample_search sample_completion" "''Globex''" "''key''" "[]" "''x''"]
  by simp

text \<open>
  The claim as stated, for templates that have no placeholder and yet have braces:
  the escaped braces of \<^verbatim>\<open>Top 5 {{best}} products\<close> are halved, in the substituted
  prompt and in the \<^verbatim>\<open>q\<close> of the request, and the lone brace of
  \<^verbatim>\<open>Deals at 50} off\<close> is a \<^verbatim>\<open>ValueError\<close>.
\<close>

theorem template_without_braces_is_literal_counterexample:
  "py_format (render_field (world sample_search sample_completion)) ''Top 5 {{best}} products'' ''Acme Corp''
     = Inr ''Top 5 {best} products''
   \<and> snd (search (world (always (organic [])) sample_completion) ''key'' ''Acme Corp''
            ''Top 5 {{best}} products'' [])
     = [HttpGet search_url [(''q'', PStr ''Top 5 {best} products''), (''api_key'', PStr ''key''), (''num'', PInt 5)]]
   \<and> py_format (render_field (world sample_search sample_completion)) ''Deals at 50} off'' ''Acme Corp''
     = Inl (ValueError ''Single '}' encountered in format string'')"
  by (simp add: sample_defs always_def format_defs search_defs)

subsection \<open>The requests of one call\<close>

text \<open>
  C7, as the code has it: a call of \<^verbatim>\<open>search\<close> whose template substitution succeeds
  issues exactly one GET request, to the search URL with the parameters \<^verbatim>\<open>q\<close> (the
  substituted template), \<^verbatim>\<open>api_key\<close> (the configured key) and \<^verbatim>\<open>num\<close> = 5, whatever
  the trace before it: a second call with the same entity and template issues a second
  request.
\<close>

theorem search_issues_one_request:
  assumes fmt: "py_format (render_field ev) P e = Inr q"
  shows "(\<exists>t. snd (search ev k e P tr) =
               tr @ HttpGet ''https://serpapi.com/search''
                      [(''q'', PStr q), (''api_key'', PStr k), (''num'', PInt 5)] # t
             \<and> filter is_HttpGet t = [])
       \<and> length (filter is_HttpGet (snd (search ev k e P (snd (search ev k e P tr)))))
           = length (filter is_HttpGet tr) + 2"
proof -
  have one: "\<exists>t. snd (search ev k e P tr') =
               tr' @ HttpGet ''https://serpapi.com/search''
                      [(''q'', PStr q), (''api_key'', PStr k), (''num'', PInt 5)] # t
             \<and> filter is_HttpGet t = []" for tr'
    using search_trace[OF fmt, of k tr'] by (auto simp: search_params_def search_url_def)
  have cnt: "length (filter is_HttpGet (snd (search ev k e P tr'))) = length (filter is_HttpGet tr') + 1"
    for tr'
    using one[of tr'] by auto
  from one[of tr] cnt[of tr] cnt[of "snd (search ev k e P tr)"] show ?thesis by simp
qed

text \<open>
  Two searches for Globex in a row.
\<close>

theorem search_issues_one_request_witness:
  "length (filter is_HttpGet (snd (search (world sample_search sample_completion) ''key'' ''Globex'' default_prompt
      (snd (search (world sample_search sample_completion) ''key'' ''Globex'' default_prompt []))))) = 2"
proof -
  have fmt: "py_format (render_field (world sample_search sample_completion)) default_prompt ''Globex''
               = Inr ''What is the main product or service of Globex?''"
    by (simp add: sample_defs format_defs)
  from search_issues_one_request[OF fmt, of "''key''" "[]"] show ?thesis by simp
qed

text \<open>
  The claim as stated, for each call: with the template \<^verbatim>\<open>Tell me about {name}\<close> the
  substitution raises \<^verbatim>\<open>KeyError\<close> before \<^verbatim>\<open>requests.get\<close> is reached, and the call
  issues no request.
\<close>

theorem search_issues_one_request_counterexample:
  "search (world sample_search sample_completion) ''key'' ''Acme Corp'' ''Tell me about {name}'' []
     = (Inl (KeyError ''name''), [])"
  by (simp add: sample_defs format_defs search_defs)

lemma rev_split:
  "m = rev (dropWhile p (rev m)) @ rev (takeWhile p (rev m))"
  by (metis rev_append rev_rev_ident takeWhile_dropWhile_id)

lemma strip_split:
  "dropWhile py_isspace s = strip s @ rev (takeWhile py_isspace (rev (dropWhile py_isspace s)))"
  unfolding strip_def by (rule rev_split)

lemma strip_trims:
  "\<exists>pre post. s = pre @ strip s @ post \<and> list_all py_isspace pre \<and> list_all py_isspace post"
proof -
  let ?m = "dropWhile py_isspace s"
  have 1: "s = takeWhile py_isspace s @ ?m" by simp
  have 3: "list_all py_isspace (takeWhile py_isspace s)"
    by (simp add: list_all_iff) (meson set_takeWhileD)
  have 4: "list_all py_isspace (rev (takeWhile py_isspace (rev ?m)))"
    by (simp add: list_all_iff) (meson set_takeWhileD)
  from 1 strip_split[of s]
  have "s = takeWhile py_isspace s @ strip s @ rev (takeWhile py_isspace (rev ?m))"
    by metis
  with 3 4 show ?thesis by blast
qed

lemma strip_ends:
  assumes "strip s \<noteq> []"
  shows "\<not> py_isspace (hd (strip s)) \<and> \<not> py_isspace (last (strip s))"
proof -
  let ?m = "dropWhile py_isspace s"
  let ?d = "dropWhile py_isspace (rev ?m)"
  have d: "?d \<noteq> []" using assms by (simp add: strip_def)
  then have "\<not> py_isspace (hd ?d)" by (rule hd_dropWhile)
  then have l: "\<not> py_isspace (last (strip s))"
    using d by (simp add: strip_def last_rev)
  have m: "?m \<noteq> []" using assms strip_split[of s] by (metis append_is_Nil_conv)
  then have hm: "\<not> py_isspace (hd ?m)" by (rule hd_dropWhile)
  have "hd ?m = hd (strip s)" using assms strip_split[of s] by (metis hd_append2)
  with hm l show ?thesis by simp
qed

text \<open>
  C8, as the code has it: a call of \<^verbatim>\<open>extract_information\<close> whose template
  substitution succeeds issues exactly one completion request, with the model
  \<^verbatim>\<open>mixtral-8x7b-32768\<close>, \<^verbatim>\<open>max_tokens\<close> = 150, \<^verbatim>\<open>temperature\<close> = 0.5 and two
  messages: the fixed system instruction, and the user message that quotes the
  substituted prompt and the search text. When the response has a first choice with a
  text, the call returns that text without the white space at its two ends.
\<close>

theorem extraction_issues_one_request:
  assumes fmt: "py_format (render_field ev) P e = Inr q"
  shows "(\<exists>t. snd (extract_information ev e P sr tr) =
               tr @ ChatCreate
                      \<lparr>model = ''mixtral-8x7b-32768'',
                       messages =
                         [[(''role'', ''system''),
                           (''content'', ''You are a helpful assistant that extracts specific information from web search results.'')],
                          [(''role'', ''user''),
                           (''content'',
                            ''Extract information from the following search results based on the prompt: ''
                              @ [CHR 0x27] @ q @ [CHR 0x27]
                              @ ''\<newline>\<newline>Search Results:\<newline>'' @ sr
                              @ ''\<newline>\<newline>Extracted Information:'')]],
                       max_tokens = 150,
                       temperature = 1 / 2\<rparr> # t
             \<and> filter is_ChatCreate t = [])
       \<and> (\<forall>r c cs. chat_create ev tr (completion_request q sr) = Inr r \<and> choices r = Some c # cs \<longrightarrow>
             fst (extract_information ev e P sr tr) = Inr (strip c)
             \<and> (\<exists>pre post. c = pre @ strip c @ post \<and> list_all py_isspace pre \<and> list_all py_isspace post)
             \<and> (strip c \<noteq> [] \<longrightarrow> \<not> py_isspace (hd (strip c)) \<and> \<not> py_isspace (last (strip c))))"
proof -
  have 1: "\<exists>t. snd (extract_information ev e P sr tr) = tr @ ChatCreate (completion_request q sr) # t
             \<and> filter is_ChatCreate t = []"
    using extract_information_returns[OF fmt, of sr tr] by auto
  have 2: "fst (extract_information ev e P sr tr) = Inr (strip c)"
    if "chat_create ev tr (completion_request q sr) = Inr r" "choices r = Some c # cs" for r c cs
    using that fmt
    by (simp add: extract_information_def completion_try_def first_choice_text_def Let_def)
  from 1 2 strip_trims strip_ends show ?thesis
    unfolding completion_request_def system_message_def user_message_def by blast
qed

text \<open>
  The completion service answers with a text between a space and a newline.
\<close>

theorem extraction_issues_one_request_witness:
  "extract_information (world sample_search sample_completion) ''Acme Corp'' default_prompt
       ''Acme makes widgets.'' []
     = (Inr ''Widgets.'',
        [ChatCreate (completion_request ''What is the main product or service of Acme Corp?''
                       ''Acme makes widgets.'')])"
proof -
  let ?W = "world sample_search sample_completion"
  let ?q = "''What is the main product or service of Acme Corp?''"
  have fmt: "py_format (render_field ?W) default_prompt ''Acme Corp'' = Inr ?q"
    by (simp add: sample_defs format_defs)
  have r: "chat_create ?W [] (completion_request ?q ''Acme makes widgets.'')
             = Inr \<lparr>choices = [Some '' Widgets.\<newline>'']\<rparr>
           \<and> choices \<lparr>choices = [Some '' Widgets.\<newline>'']\<rparr> = Some '' Widgets.\<newline>'' # []"
    by (simp add: sample_defs)
  have s: "strip '' Widgets.\<newline>'' = ''Widgets.''"
    by (simp add: strip_def py_isspace_def)
  from extraction_issues_one_request[OF fmt, of "''Acme makes widgets.''" "[]"] r s
  have "fst (extract_information ?W ''Acme Corp'' default_prompt ''Acme makes widgets.'' []) = Inr ''Widgets.''"
    by metis
  moreover have "snd (extract_information ?W ''Acme Corp'' default_prompt ''Acme makes widgets.'' [])
     = [ChatCreate (completion_request ?q ''Acme makes widgets.'')]"
    by (simp add: sample_defs format_defs extract_information_def completion_try_def first_choice_text_def)
  ultimately show ?thesis by (simp add: prod_eq_iff)
qed

text \<open>
  The claim as stated, for each call: with the template \<^verbatim>\<open>Tell me about {name}\<close> line
  77 raises \<^verbatim>\<open>KeyError\<close> before the \<^verbatim>\<open>try\<close>, and the call issues no request.
\<close>

theorem extraction_issues_one_request_counterexample:
  "extract_information (world sample_search sample_completion) ''Acme Corp'' ''Tell me about {name}''
       ''Acme makes widgets.'' []
     = (Inl (KeyError ''name''), [])"
  by (simp add: sample_defs format_defs extract_information_def)

subsection \<open>Results without snippets\<close>

lemma snippets_of_bare:
  "\<forall>x\<in>set rs. \<exists>d. x = JObj d \<and> map_of d ''snippet'' = None \<Longrightarrow>
     snippets_of rs = Inr (replicate (length rs) (JStr []))"
  by (induction rs) auto

lemma py_join_empties:
  "py_join [c] (replicate (Suc n) (JStr [])) = Inr (replicate n c)"
  by (induction n) auto

text \<open>
  C9: for a response that passes the status check and whose \<^verbatim>\<open>organic_results\<close> are
  \<open>n \<ge> 2\<close> objects without a \<^verbatim>\<open>snippet\<close>, \<^verbatim>\<open>search\<close> returns \<open>n - 1\<close> newline
  characters, which is not the empty string, and \<^verbatim>\<open>process_entities\<close> passes it to
  \<^verbatim>\<open>extract_information\<close>: a completion request is issued with these newlines as the
  search text, and the record has what the extraction returned.
\<close>

theorem snippetless_results_reach_extraction:
  assumes fmt: "py_format (render_field ev) P e = Inr q"
      and get: "http_get ev tr search_url (search_params q k) = Inr r"
      and ok: "\<not> (400 \<le> status_code r \<and> status_code r < 600)"
      and body: "json r = Inr (JObj kvs)"
      and res: "map_of kvs ''organic_results'' = Some (JArr rs)"
      and two: "2 \<le> length rs"
      and bare: "\<forall>x\<in>set rs. \<exists>d. x = JObj d \<and> map_of d ''snippet'' = None"
  shows "search ev k e P tr =
           (Inr (replicate (length rs - 1) CHR ''\<newline>''), tr @ [HttpGet search_url (search_params q k)])
       \<and> replicate (length rs - 1) CHR ''\<newline>'' \<noteq> []
       \<and> (\<exists>info t. process_entities ev k [e] P tr =
             (Inr [result_record e info],
              tr @ HttpGet search_url (search_params q k)
                 # ChatCreate (completion_request q (replicate (length rs - 1) CHR ''\<newline>'')) # t)
           \<and> fst (extract_information ev e P (replicate (length rs - 1) CHR ''\<newline>'')
                    (tr @ [HttpGet search_url (search_params q k)])) = Inr info)"
proof -
  let ?s = "replicate (length rs - 1) CHR ''\<newline>''"
  let ?t1 = "tr @ [HttpGet search_url (search_params q k)]"
  from two obtain n where n: "length rs = Suc n" "n \<ge> 1"
    by (cases "length rs") auto
  have "py_join ''\<newline>'' (replicate (length rs) (JStr [])) = Inr ?s"
    using py_join_empties[of "CHR ''\<newline>''" n] n by simp
  with snippets_of_bare[OF bare] body res
  have "join_snippets r = Inr ?s"
    by (simp add: join_snippets_def)
  with fmt get ok have 1: "search ev k e P tr = (Inr ?s, ?t1)"
    by (simp add: search_def search_try_def raise_for_status_def Let_def)
  have 2: "?s \<noteq> []" using n by simp
  from extract_information_returns[OF fmt, of ?s ?t1] obtain info t where
    ext: "extract_information ev e P ?s ?t1 = (Inr info, ?t1 @ ChatCreate (completion_request q ?s) # t)"
    by blast
  have "process_entities ev k [e] P tr =
          (Inr [result_record e info], ?t1 @ ChatCreate (completion_request q ?s) # t)"
    using 1 2 ext by (simp add: process_entities_def)
  with ext have 3: "\<exists>info t. process_entities ev k [e] P tr =
             (Inr [result_record e info],
              tr @ HttpGet search_url (search_params q k) # ChatCreate (completion_request q ?s) # t)
           \<and> fst (extract_information ev e P ?s ?t1) = Inr info"
    by auto
  from 1 2 3 show ?thesis by blast
qed

text \<open>
  Such a response exists: two results, one with a title only and one with a link only.
\<close>

theorem snippetless_results_reach_extraction_witness:
  "search (world (always (organic bare_results)) sample_completion) ''key'' ''Acme Corp'' default_prompt []
     = (Inr ''\<newline>'',
        [HttpGet search_url (search_params ''What is the main product or service of Acme Corp?'' ''key'')])
   \<and> process_entities (world (always (organic bare_results)) sample_completion) ''key'' [''Acme Corp'']
        default_prompt []
     = (Inr [result_record ''Acme Corp'' ''Widgets.''],
        [HttpGet search_url (search_params ''What is the main product or service of Acme Corp?'' ''key''),
         ChatCreate (completion_request ''What is the main product or service of Acme Corp?'' ''\<newline>'')])"
proof -
  let ?W = "world (always (organic bare_results)) sample_completion"
  let ?q = "''What is the main product or service of Acme Corp?''"
  have fmt: "py_format (render_field ?W) default_prompt ''Acme Corp'' = Inr ?q"
    by (simp add: sample_defs format_defs)
  have get: "http_get ?W [] search_url (search_params ?q ''key'') = Inr (organic bare_results)"
    by (simp add: sample_defs always_def)
  have ok: "\<not> (400 \<le> status_code (organic bare_results) \<and> status_code (organic bare_results) < 600)"
    by (simp add: sample_defs)
  have body: "json (organic bare_results) = Inr (JObj [(''organic_results'', JArr bare_results)])"
    by (simp add: organic_def)
  have res: "map_of [(''organic_results'', JArr bare_results)] ''organic_results'' = Some (JArr bare_results)"
    by simp
  have two: "2 \<le> length bare_results" by (simp add: bare_results_def)
  have bare: "\<forall>x\<in>set bare_results. \<exists>d. x = JObj d \<and> map_of d ''snippet'' = None"
    by (simp add: bare_results_def)
  have len: "replicate (length bare_results - 1) CHR ''\<newline>'' = ''\<newline>''"
    by (simp add: bare_results_def)
  from snippetless_results_reach_extraction[OF fmt get ok body res two bare]
  have 1: "search ?W ''key'' ''Acme Corp'' default_prompt [] =
             (Inr ''\<newline>'', [HttpGet search_url (search_params ?q ''key'')])"
    unfolding len by simp
  have 2: "extract_information ?W ''Acme Corp'' default_prompt ''\<newline>''
             [HttpGet search_url (search_params ?q ''key'')]
           = (Inr ''Widgets.'', [HttpGet search_url (search_params ?q ''key''),
                ChatCreate (completion_request ?q ''\<newline>'')])"
    by (simp add: sample_defs format_defs extract_information_def completion_try_def
          first_choice_text_def strip_def py_isspace_def)
  from 1 2 show ?thesis by (simp add: process_entities_def)
qed

subsection \<open>The calls of one entity\<close>

lemma search_calls:
  "\<exists>t. snd (search ev k e P tr) = tr @ t
       \<and> length (filter is_HttpGet t) \<le> 1 \<and> filter is_ChatCreate t = []"
  by (auto simp: search_def search_try_def Let_def split: sum.splits prod.splits)

lemma extract_information_calls:
  "\<exists>t. snd (extract_information ev e P sr tr) = tr @ t
       \<and> filter is_HttpGet t = [] \<and> length (filter is_ChatCreate t) \<le> 1"
  by (auto simp: extract_information_def Let_def split: sum.splits)

lemma process_loop_calls:
  "\<exists>t. snd (process_loop ev k P E acc tr) = tr @ t
       \<and> length (filter is_HttpGet t) \<le> length E
       \<and> length (filter is_ChatCreate t) \<le> length (filter is_HttpGet t)"
proof (induction E arbitrary: acc tr)
  case Nil
  then show ?case by simp
next
  case (Cons e E)
  obtain res tr1 where s: "search ev k e P tr = (res, tr1)" by (cases "search ev k e P tr")
  show ?case
  proof (cases res)
    case (Inl ex)
    with s search_calls[of ev k e P tr] show ?thesis by auto
  next
    case (Inr sr)
    show ?thesis
    proof (cases "sr = []")
      case True
      from search_calls[of ev k e P tr] s obtain t1 where
        t1: "tr1 = tr @ t1" "length (filter is_HttpGet t1) \<le> 1" "filter is_ChatCreate t1 = []"
        by auto
      from Cons.IH[of "acc @ [result_record e ''No data found'']" tr1] obtain t where
        t: "snd (process_loop ev k P E (acc @ [result_record e ''No data found'']) tr1) = tr1 @ t"
           "length (filter is_HttpGet t) \<le> length E"
           "length (filter is_ChatCreate t) \<le> length (filter is_HttpGet t)"
        by blast
      have "snd (process_loop ev k P (e # E) acc tr) = tr @ (t1 @ t)"
        using s Inr True t(1) t1(1) by simp
      moreover have "length (filter is_HttpGet (t1 @ t)) \<le> length (e # E)"
        using t1(2) t(2) by simp
      moreover have "length (filter is_ChatCreate (t1 @ t)) \<le> length (filter is_HttpGet (t1 @ t))"
        using t1(3) t(3) by simp
      ultimately show ?thesis by blast
    next
      case False
      from search_nonempty[of ev k e P tr sr tr1] s Inr False obtain q where
        q: "py_format (render_field ev) P e = Inr q"
           "tr1 = tr @ [HttpGet search_url (search_params q k)]"
        by auto
      from extract_information_returns[OF q(1), of sr tr1] obtain info t2 where
        x: "extract_information ev e P sr tr1 = (Inr info, tr1 @ ChatCreate (completion_request q sr) # t2)"
           "t2 = [] \<or> (\<exists>ex. t2 = [SidebarError ''Error during LLM extraction: '' ex])"
        by blast
      let ?tr2 = "tr1 @ ChatCreate (completion_request q sr) # t2"
      from Cons.IH[of "acc @ [result_record e info]" ?tr2] obtain t where
        t: "snd (process_loop ev k P E (acc @ [result_record e info]) ?tr2) = ?tr2 @ t"
           "length (filter is_HttpGet t) \<le> length E"
           "length (filter is_ChatCreate t) \<le> length (filter is_HttpGet t)"
        by blast
      let ?new = "HttpGet search_url (search_params q k) # ChatCreate (completion_request q sr) # t2 @ t"
      have "snd (process_loop ev k P (e # E) acc tr) = tr @ ?new"
        using s Inr False x(1) t(1) q(2) by simp
      moreover have "length (filter is_HttpGet ?new) \<le> length (e # E)"
        using x(2) t(2) by auto
      moreover have "length (filter is_ChatCreate ?new) \<le> length (filter is_HttpGet ?new)"
        using x(2) t(3) by auto
      ultimately show ?thesis by blast
    qed
  qed
qed

lemma process_entities_step:
  "process_entities ev k (xs @ [e]) P tr =
     (case process_entities ev k xs P tr of
        (Inl ex, t) \<Rightarrow> (Inl ex, t)
      | (Inr rs1, tr1) \<Rightarrow>
          (case search ev k e P tr1 of
             (Inl ex, t) \<Rightarrow> (Inl ex, t)
           | (Inr s, tr2) \<Rightarrow>
               if s = [] then (Inr (rs1 @ [result_record e ''No data found'']), tr2)
               else (case extract_information ev e P s tr2 of
                       (Inl ex, t) \<Rightarrow> (Inl ex, t)
                     | (Inr info, t) \<Rightarrow> (Inr (rs1 @ [result_record e info]), t))))"
  by (simp add: process_entities_def process_loop_append split: prod.splits sum.splits)

lemma extract_information_request:
  assumes "py_format (render_field ev) P e = Inr q"
  shows "\<exists>t. snd (extract_information ev e P sr tr) = tr @ t
           \<and> filter is_HttpGet t = []
           \<and> filter is_ChatCreate t = [ChatCreate (completion_request q sr)]"
  using extract_information_returns[OF assms, of sr tr] by auto

text \<open>
  C10: in every execution, the entities before \<open>e\<close> either raised, and then \<open>e\<close> is
  not processed, or were processed, and then \<^verbatim>\<open>search\<close> is called for \<open>e\<close>. If it
  raises, the run ends with its exception and its trace; if it returns the empty string,
  the record is \<^verbatim>\<open>No data found\<close> and the trace is the one \<^verbatim>\<open>search\<close> left; in both
  cases no completion request is issued. Only if it returns a non-empty \<open>s\<close> is
  \<^verbatim>\<open>extract_information\<close> called, with \<open>e\<close>, the template and \<open>s\<close> as they are, on
  the trace \<^verbatim>\<open>search\<close> left, and the one completion request issued for \<open>e\<close> is the
  request built from the substituted template and \<open>s\<close>. The entity adds at most one
  GET request and at most one completion request. Over a whole run on \<open>E\<close> there are at
  most as many GET requests as entities, at most as many completion requests as GET
  requests, and so at most two external calls for each entity.
\<close>

theorem extraction_only_after_nonempty_search:
  "process_entities ev k (xs @ [e]) P tr =
     (case process_entities ev k xs P tr of
        (Inl ex, t) \<Rightarrow> (Inl ex, t)
      | (Inr rs1, tr1) \<Rightarrow>
          (case search ev k e P tr1 of
             (Inl ex, t) \<Rightarrow> (Inl ex, t)
           | (Inr s, tr2) \<Rightarrow>
               if s = [] then (Inr (rs1 @ [result_record e ''No data found'']), tr2)
               else (case extract_information ev e P s tr2 of
                       (Inl ex, t) \<Rightarrow> (Inl ex, t)
                     | (Inr info, t) \<Rightarrow> (Inr (rs1 @ [result_record e info]), t))))
   \<and> (\<forall>rs1 tr1. process_entities ev k xs P tr = (Inr rs1, tr1) \<longrightarrow>
         (\<exists>t. snd (process_entities ev k (xs @ [e]) P tr) = tr1 @ t
              \<and> length (filter is_HttpGet t) \<le> 1
              \<and> length (filter is_ChatCreate t) \<le> 1
              \<and> (case search ev k e P tr1 of
                    (Inl ex, tr2) \<Rightarrow> tr1 @ t = tr2 \<and> filter is_ChatCreate t = []
                  | (Inr s, tr2) \<Rightarrow>
                      if s = [] then tr1 @ t = tr2 \<and> filter is_ChatCreate t = []
                      else (\<exists>q. py_format (render_field ev) P e = Inr q
                              \<and> filter is_ChatCreate t = [ChatCreate (completion_request q s)]))))
   \<and> (\<forall>ex t. process_entities ev k xs P tr = (Inl ex, t) \<longrightarrow>
         process_entities ev k (xs @ e # ys) P tr = (Inl ex, t))
   \<and> (\<exists>t. snd (process_entities ev k E P tr) = tr @ t
          \<and> length (filter is_HttpGet t) \<le> length E
          \<and> length (filter is_ChatCreate t) \<le> length (filter is_HttpGet t)
          \<and> length (filter (\<lambda>x. is_HttpGet x \<or> is_ChatCreate x) t) \<le> 2 * length E)"
proof -
  note 1 = process_entities_step[of ev k xs e P tr]
  have 2: "\<exists>t. snd (process_entities ev k (xs @ [e]) P tr) = tr1 @ t
              \<and> length (filter is_HttpGet t) \<le> 1
              \<and> length (filter is_ChatCreate t) \<le> 1
              \<and> (case search ev k e P tr1 of
                    (Inl ex, tr2) \<Rightarrow> tr1 @ t = tr2 \<and> filter is_ChatCreate t = []
                  | (Inr s, tr2) \<Rightarrow>
                      if s = [] then tr1 @ t = tr2 \<and> filter is_ChatCreate t = []
                      else (\<exists>q. py_format (render_field ev) P e = Inr q
                              \<and> filter is_ChatCreate t = [ChatCreate (completion_request q s)]))"
    if pre: "process_entities ev k xs P tr = (Inr rs1, tr1)" for rs1 tr1
  proof -
    obtain res tr2 where s: "search ev k e P tr1 = (res, tr2)" by (cases "search ev k e P tr1")
    from search_calls[of ev k e P tr1] s obtain t1 where
      t1: "tr2 = tr1 @ t1" "length (filter is_HttpGet t1) \<le> 1" "filter is_ChatCreate t1 = []"
      by auto
    show ?thesis
    proof (cases res)
      case (Inl ex)
      with 1 pre s have "snd (process_entities ev k (xs @ [e]) P tr) = tr1 @ t1"
        using t1(1) by simp
      with t1 s Inl show ?thesis by (intro exI[of _ t1]) simp
    next
      case (Inr sr)
      show ?thesis
      proof (cases "sr = []")
        case True
        with 1 pre s Inr have "snd (process_entities ev k (xs @ [e]) P tr) = tr1 @ t1"
          using t1(1) by simp
        with t1 s Inr True show ?thesis by (intro exI[of _ t1]) simp
      next
        case False
        from search_nonempty[of ev k e P tr1 sr tr2] s Inr False obtain q where
          q: "py_format (render_field ev) P e = Inr q" by auto
        from extract_information_request[OF q, of sr tr2] obtain t2 where
          t2: "snd (extract_information ev e P sr tr2) = tr2 @ t2"
              "filter is_HttpGet t2 = []"
              "filter is_ChatCreate t2 = [ChatCreate (completion_request q sr)]"
          by blast
        have "snd (process_entities ev k (xs @ [e]) P tr) = snd (extract_information ev e P sr tr2)"
          using 1 pre s Inr False by (simp split: prod.splits sum.splits)
        with t2(1) t1(1) have a: "snd (process_entities ev k (xs @ [e]) P tr) = tr1 @ (t1 @ t2)"
          by simp
        have b: "length (filter is_HttpGet (t1 @ t2)) \<le> 1" using t1(2) t2(2) by simp
        have c: "filter is_ChatCreate (t1 @ t2) = [ChatCreate (completion_request q sr)]"
          using t1(3) t2(3) by simp
        from a b c q s Inr False show ?thesis by (intro exI[of _ "t1 @ t2"]) simp
      qed
    qed
  qed
  have 3: "process_entities ev k (xs @ e # ys) P tr = (Inl ex, t)"
    if "process_entities ev k xs P tr = (Inl ex, t)" for ex t
    using that by (simp add: process_entities_def process_loop_append)
  from process_loop_calls[of ev k P E "[]" tr] obtain t where
    t: "snd (process_entities ev k E P tr) = tr @ t"
       "length (filter is_HttpGet t) \<le> length E"
       "length (filter is_ChatCreate t) \<le> length (filter is_HttpGet t)"
    by (auto simp: process_entities_def)
  have "length (filter (\<lambda>x. is_HttpGet x \<or> is_ChatCreate x) t)
          \<le> length (filter is_HttpGet t) + length (filter is_ChatCreate t)"
    by (induction t) auto
  with t have 4: "\<exists>t. snd (process_entities ev k E P tr) = tr @ t
              \<and> length (filter is_HttpGet t) \<le> length E
              \<and> length (filter is_ChatCreate t) \<le> length (filter is_HttpGet t)
              \<and> length (filter (\<lambda>x. is_HttpGet x \<or> is_ChatCreate x) t) \<le> 2 * length E"
    by (intro exI[of _ t]) simp
  from 1 2 3 4 show ?thesis by blast
qed

text \<open>
  No result for Globex, then a snippet for Acme Corp: three external calls. A search
  that raises after its request: one external call, and no completion request.
\<close>

theorem extraction_only_after_nonempty_search_witness:
  "process_entities (world sample_search sample_completion) ''key'' [''Globex'', ''Acme Corp''] default_prompt []
     = (Inr [result_record ''Globex'' ''No data found'', result_record ''Acme Corp'' ''Widgets.''],
        [HttpGet search_url (search_params ''What is the main product or service of Globex?'' ''key''),
         HttpGet search_url (search_params ''What is the main product or service of Acme Corp?'' ''key''),
         ChatCreate (completion_request ''What is the main product or service of Acme Corp?''
                       ''Acme makes widgets.'')])
   \<and> process_entities (world (always \<lparr>status_code = 200, json = Inr JNull\<rparr>) sample_completion)
        ''key'' [''Acme Corp''] default_prompt []
     = (Inl (AttributeError ''get''),
        [HttpGet search_url (search_params ''What is the main product or service of Acme Corp?'' ''key'')])"
proof -
  let ?W = "world sample_search sample_completion"
  let ?V = "world (always \<lparr>status_code = 200, json = Inr JNull\<rparr>) sample_completion"
  let ?t1 = "[HttpGet search_url (search_params ''What is the main product or service of Globex?'' ''key'')]"
  let ?t2 = "?t1 @ [HttpGet search_url (search_params ''What is the main product or service of Acme Corp?'' ''key'')]"
  have pre: "process_entities ?W ''key'' [''Globex''] default_prompt []
               = (Inr [result_record ''Globex'' ''No data found''], ?t1)"
    by (simp add: process_entities_def sample_defs format_defs search_defs)
  have srch: "search ?W ''key'' ''Acme Corp'' default_prompt ?t1 = (Inr ''Acme makes widgets.'', ?t2)"
    by (simp add: sample_defs format_defs search_defs)
  have ext: "extract_information ?W ''Acme Corp'' default_prompt ''Acme makes widgets.'' ?t2
               = (Inr ''Widgets.'', ?t2 @ [ChatCreate (completion_request
                    ''What is the main product or service of Acme Corp?'' ''Acme makes widgets.'')])"
    by (simp add: sample_defs format_defs extract_information_def completion_try_def
          first_choice_text_def strip_def py_isspace_def)
  have pre0: "process_entities ?V ''key'' [] default_prompt [] = (Inr [], [])"
    by (simp add: process_entities_def)
  have bad: "search ?V ''key'' ''Acme Corp'' default_prompt []
               = (Inl (AttributeError ''get''),
                  [HttpGet search_url (search_params ''What is the main product or service of Acme Corp?'' ''key'')])"
    by (simp add: sample_defs always_def format_defs search_defs)
  from extraction_only_after_nonempty_search[where ev = ?W and k = "''key''" and xs = "[''Globex'']"
         and e = "''Acme Corp''" and P = default_prompt and tr = "[]" and E = "[]" and ys = "[]"]
       pre srch ext
  have 1: "process_entities ?W ''key'' ([''Globex''] @ [''Acme Corp'']) default_prompt []
     = (Inr ([result_record ''Globex'' ''No data found''] @ [result_record ''Acme Corp'' ''Widgets.'']),
        ?t2 @ [ChatCreate (completion_request ''What is the main product or service of Acme Corp?''
                       ''Acme makes widgets.'')])"
    by simp
  from extraction_only_after_nonempty_search[where ev = ?V and k = "''key''" and xs = "[]"
         and e = "''Acme Corp''" and P = default_prompt and tr = "[]" and E = "[]" and ys = "[]"]
       pre0 bad
  have 2: "process_entities ?V ''key'' ([] @ [''Acme Corp'']) default_prompt []
     = (Inl (AttributeError ''get''),
        [HttpGet search_url (search_params ''What is the main product or service of Acme Corp?'' ''key'')])"
    by simp
  from 1 2 show ?thesis by simp
qed



end

